theory Spec2Isabelle
  imports Complex_Main "HOL-Library.Multiset"
begin

section \<open>Floating-point values\<close>

text \<open>
  Both scripts compute with IEEE double precision numbers (\<^verbatim>\<open>numpy.float64\<close>).
  A value is a finite number, one of the two infinities, or NaN. Finite numbers are
  idealised as reals: rounding, overflow to infinity and the sign of zero are not
  modelled (a zero divisor is read as positive zero). What is modelled exactly is the
  part the classification depends on: every ordered comparison with NaN is false, and
  NaN and the infinities propagate through the arithmetic as numpy propagates them
  (numpy warns and continues where plain Python floats would raise).
\<close>

datatype fl = Fin real | PInf | NInf | NaN

fun fl_lt :: "fl \<Rightarrow> fl \<Rightarrow> bool" where
  "fl_lt NaN _ = False"
| "fl_lt _ NaN = False"
| "fl_lt (Fin x) (Fin y) = (x < y)"
| "fl_lt (Fin _) PInf = True"
| "fl_lt (Fin _) NInf = False"
| "fl_lt PInf _ = False"
| "fl_lt NInf NInf = False"
| "fl_lt NInf _ = True"

fun fl_le :: "fl \<Rightarrow> fl \<Rightarrow> bool" where
  "fl_le NaN _ = False"
| "fl_le _ NaN = False"
| "fl_le (Fin x) (Fin y) = (x \<le> y)"
| "fl_le (Fin _) PInf = True"
| "fl_le (Fin _) NInf = False"
| "fl_le PInf PInf = True"
| "fl_le PInf _ = False"
| "fl_le NInf _ = True"

definition fl_gt :: "fl \<Rightarrow> fl \<Rightarrow> bool" where
  "fl_gt x y = fl_lt y x"

instantiation fl :: "{zero, one, plus, uminus, minus, times, inverse, power}"
begin

definition zero_fl :: fl where
  "zero_fl = Fin 0"

definition one_fl :: fl where
  "one_fl = Fin 1"

fun plus_fl :: "fl \<Rightarrow> fl \<Rightarrow> fl" where
  "plus_fl NaN _ = NaN"
| "plus_fl _ NaN = NaN"
| "plus_fl (Fin x) (Fin y) = Fin (x + y)"
| "plus_fl (Fin _) PInf = PInf"
| "plus_fl (Fin _) NInf = NInf"
| "plus_fl PInf NInf = NaN"
| "plus_fl PInf _ = PInf"
| "plus_fl NInf PInf = NaN"
| "plus_fl NInf _ = NInf"

fun uminus_fl :: "fl \<Rightarrow> fl" where
  "uminus_fl (Fin x) = Fin (- x)"
| "uminus_fl PInf = NInf"
| "uminus_fl NInf = PInf"
| "uminus_fl NaN = NaN"

definition minus_fl :: "fl \<Rightarrow> fl \<Rightarrow> fl" where
  "minus_fl x y = x + (- y)"

fun times_fl :: "fl \<Rightarrow> fl \<Rightarrow> fl" where
  "times_fl NaN _ = NaN"
| "times_fl _ NaN = NaN"
| "times_fl (Fin x) (Fin y) = Fin (x * y)"
| "times_fl (Fin x) PInf = (if x = 0 then NaN else if 0 < x then PInf else NInf)"
| "times_fl (Fin x) NInf = (if x = 0 then NaN else if 0 < x then NInf else PInf)"
| "times_fl PInf (Fin y) = (if y = 0 then NaN else if 0 < y then PInf else NInf)"
| "times_fl NInf (Fin y) = (if y = 0 then NaN else if 0 < y then NInf else PInf)"
| "times_fl PInf PInf = PInf"
| "times_fl PInf NInf = NInf"
| "times_fl NInf PInf = NInf"
| "times_fl NInf NInf = PInf"

fun divide_fl :: "fl \<Rightarrow> fl \<Rightarrow> fl" where
  "divide_fl NaN _ = NaN"
| "divide_fl _ NaN = NaN"
| "divide_fl (Fin x) (Fin y) =
     (if y = 0 then (if x = 0 then NaN else if 0 < x then PInf else NInf)
      else Fin (x / y))"
| "divide_fl (Fin _) _ = Fin 0"
| "divide_fl PInf (Fin y) = (if y < 0 then NInf else PInf)"
| "divide_fl NInf (Fin y) = (if y < 0 then PInf else NInf)"
| "divide_fl _ _ = NaN"

definition inverse_fl :: "fl \<Rightarrow> fl" where
  "inverse_fl x = divide (Fin 1) x"

instance ..

end

section \<open>The initial-condition sweep (2D_adaptive_region.py)\<close>

subsection \<open>Conditionals for the equations\<close>

text \<open>
  \<^verbatim>\<open>N(L,S,C)\<close> and \<^verbatim>\<open>F(L,S,C)\<close>: the amount of each nutrient available at
  location \<open>L\<close>, a line of slope \<open>S\<close> (or \<open>-S\<close>) and intercept \<open>C\<close> cut off at zero.
\<close>

definition N :: "fl \<Rightarrow> fl \<Rightarrow> fl \<Rightarrow> fl" where
  "N L S C = (if fl_lt (S * L + C) (Fin 0) then Fin 0 else S * L + C)"

definition F :: "fl \<Rightarrow> fl \<Rightarrow> fl \<Rightarrow> fl" where
  "F L S C = (if fl_lt (- S * L + C) (Fin 0) then Fin 0 else - S * L + C)"

subsection \<open>The vector field\<close>

text \<open>
  The state is the vector \<open>(L, A, B, X)\<close>: location, the two metabolites and the
  behavioural variable. The constants are the local constants of \<^verbatim>\<open>ode_func\<close>.
  The time argument is not used.
\<close>

type_synonym state4 = "fl \<times> fl \<times> fl \<times> fl"

definition ode_func :: "state4 \<Rightarrow> fl \<Rightarrow> state4" where
  "ode_func vec t =
     (case vec of (L, A, B, X) \<Rightarrow>
        let alpha = Fin 1;
            gamma = Fin (4 / 100);
            kd = Fin (5 / 100);
            K1 = Fin 4;
            n = (3::nat);
            h = (20::nat);
            K2 = Fin (1 / 2);
            C = Fin 9;
            S = Fin 4;
            V = Fin 2;
            dLdt = (X - Fin (1 / 2)) * V;
            dAdt = gamma * ((B ^ n) / ((K1 ^ n) + (B ^ n))) * N L S C - kd * A;
            dBdt = gamma * ((A ^ n) / ((K1 ^ n) + (A ^ n))) * F L S C - kd * B;
            dXdt = alpha * (K2 ^ h / (((((A - B) / (A + B)) + Fin 1) / Fin 2) ^ h + K2 ^ h)) - X
        in (dLdt, dAdt, dBdt, dXdt))"

subsection \<open>The integrator and the time grid\<close>

text \<open>
  \<^verbatim>\<open>scipy.integrate.odeint\<close> is a library routine, not code of the repository: it
  is a parameter of everything that calls it. It takes the vector field, the initial
  state and the time grid, and returns one state per time point.
\<close>

type_synonym 's integrator = "('s \<Rightarrow> fl \<Rightarrow> 's) \<Rightarrow> 's \<Rightarrow> fl list \<Rightarrow> 's list"

text \<open>
  \<^verbatim>\<open>numpy.linspace(start, stop, num)\<close>: \<open>num\<close> evenly spaced values from
  \<open>start\<close> to \<open>stop\<close>, both included; a single value is \<open>start\<close>.
\<close>

definition linspace :: "real \<Rightarrow> real \<Rightarrow> nat \<Rightarrow> real list" where
  "linspace start stop num =
     (if num \<le> 1 then replicate num start
      else map (\<lambda>i. start + real i * ((stop - start) / real (num - 1))) [0..<num])"

subsection \<open>A single run\<close>

text \<open>
  \<^verbatim>\<open>survival(a,b)\<close> integrates from \<open>(-10, a, b, 0.5)\<close> over 2000 time points and
  returns 0.0 (lived), 1.0 (osmotic crisis) or -1.0 (ran out of metabolites);
  \<open>dead\<close> starts at 1000.0. The trajectory \<open>x\<close> has one row per time point, and
  \<open>L\<close>, \<open>A\<close>, \<open>B\<close>, \<open>X\<close> are its four columns. The labels are float literals and
  are kept as reals.
\<close>

definition survival :: "state4 integrator \<Rightarrow> fl \<Rightarrow> fl \<Rightarrow> real" where
  "survival odeint a b =
     (let dead = 1000;
          init_L = Fin (- 10);
          init_X = Fin (1 / 2);
          x0 = (init_L, a, b, init_X);
          t = map Fin (linspace 0 800 2000);
          x = odeint ode_func x0 t;
          L = map (\<lambda>row. fst row) x;
          A = map (\<lambda>row. fst (snd row)) x;
          B = map (\<lambda>row. fst (snd (snd row))) x;
          X = map (\<lambda>row. snd (snd (snd row))) x;
          C = map2 (+) A B
      in if list_all (\<lambda>a. fl_gt a (Fin (1 / 10))) A \<and> list_all (\<lambda>b. fl_gt b (Fin (1 / 10))) B
            \<and> list_all (\<lambda>c. fl_le c (Fin 20)) C
         then 0
         else if \<not> list_all (\<lambda>c. fl_le c (Fin 20)) C
         then 1
         else if \<not> (list_all (\<lambda>a. fl_gt a (Fin (1 / 10))) A
                     \<and> list_all (\<lambda>b. fl_gt b (Fin (1 / 10))) B)
         then - 1
         else dead)"

text \<open>The trajectory \<open>x\<close> that \<^verbatim>\<open>survival(a,b)\<close> classifies.\<close>

definition trajectory :: "state4 integrator \<Rightarrow> fl \<Rightarrow> fl \<Rightarrow> state4 list" where
  "trajectory odeint a b =
     odeint ode_func (Fin (- 10), a, b, Fin (1 / 2)) (map Fin (linspace 0 800 2000))"

subsection \<open>The sweep over initial conditions\<close>

definition helper :: "state4 integrator \<Rightarrow> fl \<times> fl \<times> nat \<times> nat \<Rightarrow> real \<times> nat \<times> nat" where
  "helper odeint z =
     (case z of (A, B, posit_A, posit_B) \<Rightarrow>
        let status = survival odeint A B in (status, posit_A, posit_B))"

text \<open>
  \<^verbatim>\<open>Pool.map\<close> applies the function to every element and returns the results in
  the order of the inputs, whatever the order in which the workers finish.
\<close>

definition pool_map :: "('a \<Rightarrow> 'b) \<Rightarrow> 'a list \<Rightarrow> 'b list" where
  "pool_map f xs = map f xs"

datatype py_error = ValueError | IndexError

type_synonym matrix = "real list list"

definition np_zeros :: "nat \<Rightarrow> nat \<Rightarrow> matrix" where
  "np_zeros rows cols = replicate rows (replicate cols 0)"

text \<open>
  The assignment \<^verbatim>\<open>m[r, c] = v\<close> with indices that are not negative: out of
  range it raises.
\<close>

definition setitem :: "matrix \<Rightarrow> nat \<Rightarrow> nat \<Rightarrow> real \<Rightarrow> py_error + matrix" where
  "setitem m r c v =
     (if r < length m \<and> c < length (m ! r) then Inr (m[r := (m ! r)[c := v]])
      else Inl IndexError)"

text \<open>
  The loop of \<^verbatim>\<open>adapt_matrix\<close> over the outputs: each output \<open>i\<close> is written at
  row \<open>i[2]\<close> (the position along B) and column \<open>i[1]\<close> (the position along A).
\<close>

fun scan_outputs :: "matrix \<Rightarrow> (real \<times> nat \<times> nat) list \<Rightarrow> py_error + matrix" where
  "scan_outputs adpt_matrix [] = Inr adpt_matrix"
| "scan_outputs adpt_matrix (i # outputs) =
     (let position_a = fst (snd i);
          position_b = snd (snd i)
      in case setitem adpt_matrix position_b position_a (fst i) of
           Inl e \<Rightarrow> Inl e
         | Inr m \<Rightarrow> scan_outputs m outputs)"

text \<open>
  \<^verbatim>\<open>adapt_matrix(resolution)\<close>. \<open>is_main\<close> is the test
  \<^verbatim>\<open>__name__ == '__main__'\<close>: the dispatch, the loop over the outputs and the
  \<^verbatim>\<open>return\<close> are all inside it, so that without it the function returns
  \<^verbatim>\<open>None\<close>. A negative resolution is refused by \<^verbatim>\<open>linspace\<close>.
\<close>

definition adapt_matrix :: "bool \<Rightarrow> state4 integrator \<Rightarrow> int \<Rightarrow> py_error + matrix option" where
  "adapt_matrix is_main odeint resolution =
     (if resolution < 0 then Inl ValueError
      else
        let init_A = map Fin (linspace 0 20 (nat resolution));
            init_B = map Fin (linspace 0 20 (nat resolution));
            init_B = rev init_B;
            adpt_matrix = np_zeros (nat resolution) (nat resolution);
            conds = concat (map (\<lambda>(pos_a, a).
                       map (\<lambda>(pos_b, b). (a, b, pos_a, pos_b)) (enumerate 0 init_B))
                     (enumerate 0 init_A))
        in if is_main then
             (let outputs = pool_map (helper odeint) conds
              in case scan_outputs adpt_matrix outputs of
                   Inl e \<Rightarrow> Inl e
                 | Inr m \<Rightarrow> Inr (Some m))
           else Inr None)"

text \<open>The job list \<open>conds\<close> and the list \<open>outputs\<close> of \<^verbatim>\<open>adapt_matrix\<close>.\<close>

definition sweep_conds :: "nat \<Rightarrow> (fl \<times> fl \<times> nat \<times> nat) list" where
  "sweep_conds n =
     concat (map (\<lambda>(pos_a, a).
         map (\<lambda>(pos_b, b). (a, b, pos_a, pos_b)) (enumerate 0 (rev (map Fin (linspace 0 20 n)))))
       (enumerate 0 (map Fin (linspace 0 20 n))))"

definition sweep_outputs :: "state4 integrator \<Rightarrow> nat \<Rightarrow> (real \<times> nat \<times> nat) list" where
  "sweep_outputs odeint n = pool_map (helper odeint) (sweep_conds n)"

text \<open>The cells the loop over a list of outputs assigns, in the order of the loop.\<close>

definition written_cells :: "(real \<times> nat \<times> nat) list \<Rightarrow> (nat \<times> nat) list" where
  "written_cells outputs = map (\<lambda>i. (snd (snd i), fst (snd i))) outputs"

text \<open>The same assignments with the value each one stores.\<close>

definition cell_writes :: "(real \<times> nat \<times> nat) list \<Rightarrow> ((nat \<times> nat) \<times> real) list" where
  "cell_writes outputs = map (\<lambda>i. ((snd (snd i), fst (snd i)), fst i)) outputs"

section \<open>The environment-parameter sweep (FixedCondSurvival.py)\<close>

type_synonym state2 = "fl \<times> fl"

definition ode_func_AB :: "state2 \<Rightarrow> fl \<Rightarrow> fl \<Rightarrow> fl \<Rightarrow> state2" where
  "ode_func_AB vec t N_arg F_arg =
     (case vec of (A, B) \<Rightarrow>
        let N_conc = N_arg;
            F_conc = F_arg;
            gamma = Fin (4 / 100);
            kd = Fin (5 / 100);
            K1 = Fin 4;
            n = (3::nat);
            dAdt = gamma * ((B ^ n) / ((K1 ^ n) + (B ^ n))) * N_conc - kd * A;
            dBdt = gamma * ((A ^ n) / ((K1 ^ n) + (A ^ n))) * F_conc - kd * B
        in (dAdt, dBdt))"

definition AB_survival :: "state2 integrator \<Rightarrow> fl \<Rightarrow> fl \<Rightarrow> fl \<Rightarrow> fl \<Rightarrow> real" where
  "AB_survival odeint N_arg F_arg a b =
     (let survival = 0;
          x0 = (a, b);
          t = map Fin (linspace 0 800 4000);
          x = odeint (\<lambda>vec t. ode_func_AB vec t N_arg F_arg) x0 t;
          A = map fst x;
          B = map snd x;
          C = map2 (+) A B
      in if list_all (\<lambda>a. fl_gt a (Fin (1 / 10))) A \<and> list_all (\<lambda>b. fl_gt b (Fin (1 / 10))) B
            \<and> list_all (\<lambda>c. fl_le c (Fin 20)) C
         then survival + 1
         else survival)"

definition trajectory_AB :: "state2 integrator \<Rightarrow> fl \<Rightarrow> fl \<Rightarrow> fl \<Rightarrow> fl \<Rightarrow> state2 list" where
  "trajectory_AB odeint N_arg F_arg a b =
     odeint (\<lambda>vec t. ode_func_AB vec t N_arg F_arg) (a, b) (map Fin (linspace 0 800 4000))"

definition helper_AB :: "state2 integrator \<Rightarrow> fl \<times> fl \<times> fl \<times> fl \<Rightarrow> real" where
  "helper_AB odeint z =
     (case z of (N_arg, F_arg, A, B) \<Rightarrow>
        let survival = AB_survival odeint N_arg F_arg A B in survival)"

text \<open>\<^verbatim>\<open>numpy.mean\<close> of a list of floats; of an empty list it is NaN.\<close>

definition np_mean :: "real list \<Rightarrow> fl" where
  "np_mean xs = (if xs = [] then NaN else Fin (sum_list xs / real (length xs)))"

text \<open>
  \<^verbatim>\<open>AB_assess(N, F)\<close>. Here the \<^verbatim>\<open>return\<close> is outside the test
  \<^verbatim>\<open>__name__ == '__main__'\<close>: without it the function returns the initial
  score 0.0.
\<close>

definition AB_assess :: "bool \<Rightarrow> state2 integrator \<Rightarrow> fl \<Rightarrow> fl \<Rightarrow> fl" where
  "AB_assess is_main odeint N_arg F_arg =
     (let init_A = map Fin (linspace 0 20 50);
          init_B = map Fin (linspace 0 20 50);
          survivability = Fin 0;
          conds = concat (map (\<lambda>a. map (\<lambda>b. (N_arg, F_arg, a, b)) init_B) init_A)
      in if is_main then
           (let outputs = pool_map (helper_AB odeint) conds;
                survivability = np_mean outputs
            in survivability)
         else survivability)"

text \<open>
  The scores of the 50 by 50 sub-grid of initial conditions for one pair of supply
  constants: one score of \<^verbatim>\<open>AB_survival\<close> for each pair of grid values.
\<close>

definition AB_scores :: "state2 integrator \<Rightarrow> fl \<Rightarrow> fl \<Rightarrow> real list" where
  "AB_scores odeint N_arg F_arg =
     concat (map (\<lambda>a. map (\<lambda>b. AB_survival odeint N_arg F_arg a b) (map Fin (linspace 0 20 50)))
       (map Fin (linspace 0 20 50)))"

section \<open>Reference equations and sample integrators\<close>

text \<open>
  The rectified supply functions and the vector field as the specification words them,
  over the reals, with the constants as parameters.
\<close>

definition supplyRising :: "real \<Rightarrow> real \<Rightarrow> real \<Rightarrow> real" where
  "supplyRising location slope intercept = max 0 (slope * location + intercept)"

definition supplyFalling :: "real \<Rightarrow> real \<Rightarrow> real \<Rightarrow> real" where
  "supplyFalling location slope intercept = max 0 (- slope * location + intercept)"

record params =
  p_alpha :: real
  p_gamma :: real
  p_kd :: real
  p_K1 :: real
  p_n :: nat
  p_h :: nat
  p_K2 :: real
  p_C :: real
  p_S :: real
  p_V :: real

definition reference_field :: "params \<Rightarrow> real \<times> real \<times> real \<times> real \<Rightarrow> real \<times> real \<times> real \<times> real" where
  "reference_field p v =
     (case v of (L, A, B, X) \<Rightarrow>
        let target = ((A - B) / (A + B) + 1) / 2
        in ((X - 1 / 2) * p_V p,
            p_gamma p * B ^ p_n p / (p_K1 p ^ p_n p + B ^ p_n p) * supplyRising L (p_S p) (p_C p)
              - p_kd p * A,
            p_gamma p * A ^ p_n p / (p_K1 p ^ p_n p + A ^ p_n p) * supplyFalling L (p_S p) (p_C p)
              - p_kd p * B,
            p_alpha p * p_K2 p ^ p_h p / (target ^ p_h p + p_K2 p ^ p_h p) - X))"

definition code_params :: params where
  "code_params = \<lparr>p_alpha = 1, p_gamma = 4 / 100, p_kd = 5 / 100, p_K1 = 4, p_n = 3,
     p_h = 20, p_K2 = 1 / 2, p_C = 9, p_S = 4, p_V = 2\<rparr>"

text \<open>
  Two stand-ins for the integrator, used to evaluate the theorems on concrete
  trajectories: one that reports the initial state at every time point, and one that
  reports the initial state first and NaN in every component afterwards (a solver
  that has diverged).
\<close>

definition frozen_integrator :: "'s integrator" where
  "frozen_integrator f x0 ts = map (\<lambda>_. x0) ts"

definition diverged_integrator :: "state4 integrator" where
  "diverged_integrator f x0 ts =
     (case ts of [] \<Rightarrow> [] | _ # rest \<Rightarrow> x0 # map (\<lambda>_. (NaN, NaN, NaN, NaN)) rest)"

section \<open>Properties\<close>

subsection \<open>Comparisons, the time grid and the sample integrators\<close>

lemma fl_gt_not_le: "fl_gt c d \<Longrightarrow> \<not> fl_le c d"
  by (cases c; cases d) (auto simp: fl_gt_def)

lemma fl_le_not_gt: "fl_le c d \<Longrightarrow> \<not> fl_gt c d"
  by (cases c; cases d) (auto simp: fl_gt_def)

lemma map2_plus_cols:
  "map2 (+) (map f xs) (map g xs) = map (\<lambda>s. f s + g s) xs"
  by (induction xs) auto

lemma length_linspace: "length (linspace start stop num) = num"
  by (simp add: linspace_def)

lemma frozen_integrator_replicate:
  "frozen_integrator f x0 ts = replicate (length ts) x0"
  by (simp add: frozen_integrator_def map_replicate_const)

lemma trajectory_frozen:
  "trajectory frozen_integrator a b = replicate 2000 (Fin (- 10), a, b, Fin (1 / 2))"
  by (simp add: trajectory_def frozen_integrator_replicate length_linspace)

lemma diverged_integrator_Suc:
  "length ts = Suc n \<Longrightarrow>
     diverged_integrator f x0 ts = x0 # replicate n (NaN, NaN, NaN, NaN)"
  by (cases ts) (auto simp: diverged_integrator_def map_replicate_const)

lemma trajectory_diverged:
  "trajectory diverged_integrator a b =
     (Fin (- 10), a, b, Fin (1 / 2)) # replicate 1999 (NaN, NaN, NaN, NaN)"
  unfolding trajectory_def
  by (rule diverged_integrator_Suc) (simp add: length_linspace)

subsection \<open>The three-way classification\<close>

text \<open>
  The nested conditionals of \<^verbatim>\<open>survival\<close> read on the samples of the trajectory:
  the columns \<open>A\<close>, \<open>B\<close> and \<open>C = A + B\<close> are taken from the same rows, and the
  third test repeats the first one, so the last branch is never taken.
\<close>

lemma survival_cases:
  "survival odeint a b =
     (if list_all (\<lambda>(L, A, B, X).
            fl_gt A (Fin (1 / 10)) \<and> fl_gt B (Fin (1 / 10)) \<and> fl_le (A + B) (Fin 20))
          (trajectory odeint a b) then 0
      else if list_ex (\<lambda>(L, A, B, X). \<not> fl_le (A + B) (Fin 20)) (trajectory odeint a b) then 1
      else - 1)"
  unfolding survival_def trajectory_def Let_def map2_plus_cols
  by (auto simp: list_all_iff list_ex_iff case_prod_beta)

text \<open>
  C1. \<^verbatim>\<open>survival\<close> returns 0.0 exactly for the trajectories in which, at every
  sampled time point, \<open>A > 0.1\<close> and \<open>B > 0.1\<close> and \<open>C = A + B \<le> 20\<close>: it returns 0.0
  for each of them and for no other trajectory.
\<close>

theorem survival_lives_iff:
  "survival odeint a b = 0 \<longleftrightarrow>
     (\<forall>(L, A, B, X) \<in> set (trajectory odeint a b).
        fl_gt A (Fin (1 / 10)) \<and> fl_gt B (Fin (1 / 10)) \<and> fl_le (A + B) (Fin 20))"
  by (auto simp: survival_cases list_all_iff list_ex_iff case_prod_beta)

theorem survival_lives_iff_witness:
  "survival frozen_integrator (Fin 5) (Fin 5) = 0
   \<and> list_all (\<lambda>(L, A, B, X).
         fl_gt A (Fin (1 / 10)) \<and> fl_gt B (Fin (1 / 10)) \<and> fl_le (A + B) (Fin 20))
        (trajectory frozen_integrator (Fin 5) (Fin 5))
   \<and> survival frozen_integrator (Fin 0) (Fin 5) \<noteq> 0"
  using survival_lives_iff [of frozen_integrator "Fin 5" "Fin 5"]
    survival_lives_iff [of frozen_integrator "Fin 0" "Fin 5"]
  by (simp add: trajectory_frozen list_all_iff fl_gt_def)

text \<open>
  C2. Whenever \<open>C = A + B\<close> exceeds 20 at some sampled time point, \<^verbatim>\<open>survival\<close>
  returns 1.0, whatever \<open>A\<close> and \<open>B\<close> do anywhere in the trajectory: the test on \<open>C\<close>
  comes before the test on \<open>A\<close> and \<open>B\<close>. The instance below is a trajectory with
  \<open>A \<le> 0.1\<close> and \<open>C > 20\<close> at once.
\<close>

theorem survival_crisis:
  "(L, A, B, X) \<in> set (trajectory odeint a b) \<Longrightarrow> fl_gt (A + B) (Fin 20) \<Longrightarrow>
   survival odeint a b = 1"
  by (force simp: survival_cases list_all_iff list_ex_iff case_prod_beta dest: fl_gt_not_le)

theorem survival_crisis_witness:
  "fl_le (Fin (1 / 20)) (Fin (1 / 10)) \<and> fl_gt (Fin (1 / 20) + Fin 25) (Fin 20)
   \<and> survival frozen_integrator (Fin (1 / 20)) (Fin 25) = 1"
  using survival_crisis [of "Fin (- 10)" "Fin (1 / 20)" "Fin 25" "Fin (1 / 2)"
      frozen_integrator "Fin (1 / 20)" "Fin 25"]
  by (simp add: trajectory_frozen fl_gt_def)

text \<open>
  C3. As stated (``\<open>C\<close> never exceeds 20 but \<open>A\<close> or \<open>B\<close> drops to 0.1 or below, then
  -1.0''), the claim fails on a trajectory with a NaN: a NaN sample of \<open>C\<close> does not
  exceed 20, yet it fails \<^verbatim>\<open>c <= 20\<close>, and the trajectory is labelled 1.0. The
  trajectory below starts at the grid point \<open>A = B = 0\<close> and is NaN afterwards.
\<close>

theorem survival_starvation_counterexample:
  "\<not> list_ex (\<lambda>(L, A, B, X). fl_gt (A + B) (Fin 20))
        (trajectory diverged_integrator (Fin 0) (Fin 0))
   \<and> list_ex (\<lambda>(L, A, B, X). fl_le A (Fin (1 / 10)) \<or> fl_le B (Fin (1 / 10)))
        (trajectory diverged_integrator (Fin 0) (Fin 0))
   \<and> survival diverged_integrator (Fin 0) (Fin 0) \<noteq> - 1
   \<and> survival diverged_integrator (Fin 0) (Fin 0) = 1"
  by (simp add: survival_cases trajectory_diverged fl_gt_def list_ex_iff)

text \<open>
  C3, amended. If \<open>C = A + B \<le> 20\<close> holds at every sampled time point (so that no
  sample of \<open>C\<close> is NaN) and \<open>A\<close> or \<open>B\<close> is 0.1 or below at some sampled time point,
  then \<^verbatim>\<open>survival\<close> returns -1.0.
\<close>

theorem survival_starvation:
  "\<forall>(L, A, B, X) \<in> set (trajectory odeint a b). fl_le (A + B) (Fin 20) \<Longrightarrow>
   (L, A, B, X) \<in> set (trajectory odeint a b) \<Longrightarrow>
   fl_le A (Fin (1 / 10)) \<or> fl_le B (Fin (1 / 10)) \<Longrightarrow>
   survival odeint a b = - 1"
  by (force simp: survival_cases list_all_iff list_ex_iff case_prod_beta dest: fl_le_not_gt)

theorem survival_starvation_witness:
  "list_all (\<lambda>(L, A, B, X). fl_le (A + B) (Fin 20))
     (trajectory frozen_integrator (Fin 0) (Fin 3))
   \<and> list_ex (\<lambda>(L, A, B, X). fl_le A (Fin (1 / 10)))
        (trajectory frozen_integrator (Fin 0) (Fin 3))
   \<and> survival frozen_integrator (Fin 0) (Fin 3) = - 1"
  using survival_starvation [of frozen_integrator "Fin 0" "Fin 3"
      "Fin (- 10)" "Fin 0" "Fin 3" "Fin (1 / 2)"]
  by (simp add: trajectory_frozen list_all_iff list_ex_iff)

text \<open>
  C10. For every integrator and every pair \<open>(a, b)\<close>, \<^verbatim>\<open>survival\<close> returns 0.0,
  1.0 or -1.0, and never the initial value 1000.0 of \<open>dead\<close>.
\<close>

theorem survival_label_range:
  "survival odeint a b \<in> {0, 1, - 1} \<and> survival odeint a b \<noteq> 1000"
  by (simp add: survival_cases)

theorem survival_label_range_witness:
  "survival frozen_integrator (Fin 1) (Fin 1) \<in> {0, 1, - 1}
   \<and> survival frozen_integrator (Fin 1) (Fin 1) \<noteq> 1000"
  using survival_label_range [of frozen_integrator "Fin 1" "Fin 1"]
  by simp

subsection \<open>The scan over the grid\<close>

text \<open>
  The loop over the outputs never raises when every position is inside the matrix, it
  keeps the shape of the matrix, and a cell ends with the value of the last output
  written to it (or its old value when none was).
\<close>

lemma setitem_in_range:
  "r < length m \<Longrightarrow> c < length (m ! r) \<Longrightarrow> setitem m r c v = Inr (m[r := (m ! r)[c := v]])"
  by (simp add: setitem_def)

lemma scan_outputs_cells:
  assumes "length m = n" "\<forall>r<n. length (m ! r) = n"
    and "\<forall>i\<in>set outs. fst (snd i) < n \<and> snd (snd i) < n"
  shows "\<exists>m'. scan_outputs m outs = Inr m' \<and> length m' = n \<and> (\<forall>r<n. length (m' ! r) = n)
     \<and> (\<forall>r<n. \<forall>c<n. m' ! r ! c =
           (case map_of (rev (cell_writes outs)) (r, c) of None \<Rightarrow> m ! r ! c | Some v \<Rightarrow> v))"
  using assms
proof (induction outs arbitrary: m)
  case Nil
  then show ?case by (simp add: cell_writes_def)
next
  case (Cons i outs)
  obtain v pa pb where i: "i = (v, pa, pb)" by (cases i) auto
  from Cons.prems i have pa: "pa < n" and pb: "pb < n" by auto
  define m1 where "m1 = m[pb := (m ! pb)[pa := v]]"
  have set1: "setitem m pb pa v = Inr m1"
    using Cons.prems(1,2) pa pb by (simp add: setitem_in_range m1_def)
  have len1: "length m1 = n" using Cons.prems(1) by (simp add: m1_def)
  have rows1: "\<forall>r<n. length (m1 ! r) = n"
  proof (intro allI impI)
    fix r assume "r < n"
    then show "length (m1 ! r) = n"
      using Cons.prems(1,2) pb by (cases "r = pb") (simp_all add: m1_def)
  qed
  have rest: "\<forall>i\<in>set outs. fst (snd i) < n \<and> snd (snd i) < n"
    using Cons.prems(3) by simp
  from Cons.IH [OF len1 rows1 rest] obtain m' where
    m': "scan_outputs m1 outs = Inr m'" "length m' = n" "\<forall>r<n. length (m' ! r) = n"
      "\<forall>r<n. \<forall>c<n. m' ! r ! c =
           (case map_of (rev (cell_writes outs)) (r, c) of None \<Rightarrow> m1 ! r ! c | Some v \<Rightarrow> v)"
    by blast
  have run: "scan_outputs m (i # outs) = Inr m'"
    using set1 m'(1) by (simp add: i)
  have cells: "m' ! r ! c =
      (case map_of (rev (cell_writes (i # outs))) (r, c) of None \<Rightarrow> m ! r ! c | Some v \<Rightarrow> v)"
    if "r < n" "c < n" for r c
  proof (cases "map_of (rev (cell_writes outs)) (r, c)")
    case (Some w)
    then show ?thesis using m'(4) that
      by (simp add: cell_writes_def i map_add_def)
  next
    case None
    have "m1 ! r ! c = (if (r, c) = (pb, pa) then v else m ! r ! c)"
      using that Cons.prems(1,2) pa pb by (auto simp: m1_def nth_list_update)
    then show ?thesis using m'(4) that None
      by (simp add: cell_writes_def i map_add_def)
  qed
  show ?case using run m'(2,3) cells by blast
qed

text \<open>
  The job list and the outputs of the sweep, indexed by the pairs of positions: the
  outer loop runs over the positions along A, the inner one over the positions along
  the flipped B axis.
\<close>

lemma enumerate_nth: "enumerate 0 xs = map (\<lambda>k. (k, xs ! k)) [0..<length xs]"
  by (rule nth_equalityI) (simp_all add: nth_enumerate_eq)

lemma map_product:
  "map f (List.product xs ys) = concat (map (\<lambda>x. map (\<lambda>y. f (x, y)) ys) xs)"
  by (simp add: product_concat_map map_concat comp_def)

lemma sweep_conds_product:
  "sweep_conds n =
     map (\<lambda>(pa, pb). (map Fin (linspace 0 20 n) ! pa, rev (map Fin (linspace 0 20 n)) ! pb, pa, pb))
       (List.product [0..<n] [0..<n])"
  by (simp add: sweep_conds_def enumerate_nth map_product length_linspace comp_def)

lemma sweep_outputs_product:
  "sweep_outputs odeint n =
     map (\<lambda>(pa, pb). (survival odeint (map Fin (linspace 0 20 n) ! pa)
                         (rev (map Fin (linspace 0 20 n)) ! pb), pa, pb))
       (List.product [0..<n] [0..<n])"
  by (simp add: sweep_outputs_def pool_map_def sweep_conds_product helper_def comp_def case_prod_beta)

lemma written_cells_sweep:
  "written_cells (sweep_outputs odeint n) = map (\<lambda>(pa, pb). (pb, pa)) (List.product [0..<n] [0..<n])"
  by (simp add: written_cells_def sweep_outputs_product comp_def case_prod_beta)

lemma distinct_written_cells_sweep: "distinct (written_cells (sweep_outputs odeint n))"
  unfolding written_cells_sweep
  by (simp add: distinct_map distinct_product inj_on_def)

lemma set_written_cells_sweep:
  "set (written_cells (sweep_outputs odeint n)) = {0..<n} \<times> {0..<n}"
  unfolding written_cells_sweep by force

lemma map_fst_cell_writes: "map fst (cell_writes outs) = written_cells outs"
  by (simp add: cell_writes_def written_cells_def comp_def)

lemma sweep_outputs_in_range:
  "\<forall>i\<in>set (sweep_outputs odeint n). fst (snd i) < n \<and> snd (snd i) < n"
  by (auto simp: sweep_outputs_product)

lemma np_zeros_dims: "length (np_zeros n n) = n" "\<forall>r<n. length (np_zeros n n ! r) = n"
  by (simp_all add: np_zeros_def)

lemma map_of_cell_writes_sweep:
  assumes "r < n" "c < n"
  shows "map_of (rev (cell_writes (sweep_outputs odeint n))) (r, c) =
     Some (survival odeint (Fin (linspace 0 20 n ! c)) (Fin (linspace 0 20 n ! (n - 1 - r))))"
proof -
  have d: "distinct (map fst (rev (cell_writes (sweep_outputs odeint n))))"
    by (simp add: rev_map [symmetric] map_fst_cell_writes distinct_written_cells_sweep)
  have "(survival odeint (map Fin (linspace 0 20 n) ! c) (rev (map Fin (linspace 0 20 n)) ! r), c, r)
      \<in> set (sweep_outputs odeint n)"
    using assms unfolding sweep_outputs_product by force
  then have "((r, c), survival odeint (map Fin (linspace 0 20 n) ! c) (rev (map Fin (linspace 0 20 n)) ! r))
      \<in> set (rev (cell_writes (sweep_outputs odeint n)))"
    unfolding cell_writes_def by force
  moreover have "map Fin (linspace 0 20 n) ! c = Fin (linspace 0 20 n ! c)"
    using assms by (simp add: length_linspace)
  moreover have "rev (map Fin (linspace 0 20 n)) ! r = Fin (linspace 0 20 n ! (n - 1 - r))"
    using assms by (simp add: rev_nth length_linspace)
  ultimately show ?thesis using d by simp
qed

lemma sweep_result:
  "\<exists>m. scan_outputs (np_zeros n n) (sweep_outputs odeint n) = Inr m \<and> length m = n
     \<and> (\<forall>r<n. length (m ! r) = n)
     \<and> (\<forall>r<n. \<forall>c<n. m ! r ! c =
           survival odeint (Fin (linspace 0 20 n ! c)) (Fin (linspace 0 20 n ! (n - 1 - r))))"
  using scan_outputs_cells [OF np_zeros_dims sweep_outputs_in_range, of n odeint]
  by (auto simp: map_of_cell_writes_sweep)

lemma matrix_eqI:
  assumes "length m1 = n" "length m2 = n" "\<forall>r<n. length (m1 ! r) = n" "\<forall>r<n. length (m2 ! r) = n"
    and "\<forall>r<n. \<forall>c<n. (m1 ! r ! c :: real) = m2 ! r ! c"
  shows "m1 = m2"
proof (rule nth_equalityI)
  show "length m1 = length m2" using assms by simp
next
  fix r assume "r < length m1"
  then have r: "r < n" using assms by simp
  show "m1 ! r = m2 ! r"
    by (rule nth_equalityI) (use r assms in auto)
qed

lemma scan_outputs_perm:
  assumes dims: "length m = n" "\<forall>r<n. length (m ! r) = n"
    and range: "\<forall>i\<in>set outs1. fst (snd i) < n \<and> snd (snd i) < n"
    and dist: "distinct (written_cells outs1)"
    and perm: "mset outs2 = mset outs1"
  shows "scan_outputs m outs2 = scan_outputs m outs1"
proof -
  have s: "set outs2 = set outs1" using perm by (rule mset_eq_setD)
  have "mset (written_cells outs2) = mset (written_cells outs1)"
    using perm by (simp add: written_cells_def)
  then have dist2: "distinct (written_cells outs2)"
    using dist mset_eq_imp_distinct_iff by blast
  have range2: "\<forall>i\<in>set outs2. fst (snd i) < n \<and> snd (snd i) < n"
    using range s by simp
  have "map_of (rev (cell_writes outs2)) = map_of (rev (cell_writes outs1))"
  proof (subst map_of_inject_set)
    show "distinct (map fst (rev (cell_writes outs2)))"
      using dist2 by (simp add: rev_map [symmetric] map_fst_cell_writes)
    show "distinct (map fst (rev (cell_writes outs1)))"
      using dist by (simp add: rev_map [symmetric] map_fst_cell_writes)
    show "set (rev (cell_writes outs2)) = set (rev (cell_writes outs1))"
      using s by (simp add: cell_writes_def)
  qed
  then have eq: "map_of (rev (cell_writes outs2)) = map_of (rev (cell_writes outs1))" .
  obtain m1 where m1: "scan_outputs m outs1 = Inr m1" "length m1 = n" "\<forall>r<n. length (m1 ! r) = n"
      "\<forall>r<n. \<forall>c<n. m1 ! r ! c =
         (case map_of (rev (cell_writes outs1)) (r, c) of None \<Rightarrow> m ! r ! c | Some v \<Rightarrow> v)"
    using scan_outputs_cells [OF dims range] by blast
  obtain m2 where m2: "scan_outputs m outs2 = Inr m2" "length m2 = n" "\<forall>r<n. length (m2 ! r) = n"
      "\<forall>r<n. \<forall>c<n. m2 ! r ! c =
         (case map_of (rev (cell_writes outs2)) (r, c) of None \<Rightarrow> m ! r ! c | Some v \<Rightarrow> v)"
    using scan_outputs_cells [OF dims range2] by blast
  have "m2 = m1"
    by (rule matrix_eqI [of _ n]) (use m1 m2 eq in simp_all)
  then show ?thesis using m1(1) m2(1) by simp
qed

lemma adapt_matrix_main:
  "0 \<le> R \<Longrightarrow> adapt_matrix True odeint R =
     (case scan_outputs (np_zeros (nat R) (nat R)) (sweep_outputs odeint (nat R)) of
        Inl e \<Rightarrow> Inl e | Inr m \<Rightarrow> Inr (Some m))"
  by (simp add: adapt_matrix_def sweep_outputs_def sweep_conds_def Let_def)

lemma adapt_matrix_not_main: "0 \<le> R \<Longrightarrow> adapt_matrix False odeint R = Inr None"
  by (simp add: adapt_matrix_def Let_def)

text \<open>The grid values: \<open>n\<close> evenly spaced values from 0 to 20, and the flipped axis.\<close>

lemma linspace_nth:
  "1 < n \<Longrightarrow> i < n \<Longrightarrow> linspace start stop n ! i = start + real i * ((stop - start) / real (n - 1))"
  by (simp add: linspace_def)

lemma linspace_single: "linspace start stop (Suc 0) = [start]"
  by (simp add: linspace_def)

lemma grid_nth_gen:
  assumes "1 < n" "i < n"
  shows "linspace 0 20 n ! i = 20 * real i / real (n - 1)"
  using assms by (simp add: linspace_nth)

lemma grid_nth:
  assumes "0 < n" "i < n"
  shows "linspace 0 20 n ! i = (if n = 1 then 0 else 20 * real i / real (n - 1))"
proof (cases "n = 1")
  case True
  then show ?thesis using assms by (simp add: linspace_single)
next
  case False
  then have "1 < n" using assms by simp
  then show ?thesis using False assms(2) grid_nth_gen by simp
qed

lemma grid_rev_nth:
  assumes "0 < n" "i < n"
  shows "rev (linspace 0 20 n) ! i = linspace 0 20 n ! (n - 1 - i)"
  using assms by (simp add: rev_nth length_linspace)

lemma grid_rev_value:
  assumes "0 < n" "i < n"
  shows "rev (linspace 0 20 n) ! i = (if n = 1 then 0 else 20 - 20 * real i / real (n - 1))"
proof (cases "n = 1")
  case True
  then show ?thesis using assms by (simp add: linspace_single)
next
  case False
  then have n: "1 < n" using assms by simp
  define d where "d = real (n - 1)"
  have d: "0 < d" using n by (simp add: d_def)
  have k: "real (n - 1 - i) = d - real i"
    using assms by (simp add: d_def of_nat_diff)
  have "rev (linspace 0 20 n) ! i = 20 * real (n - 1 - i) / d"
    using assms n grid_nth_gen [of n "n - 1 - i"] by (simp add: grid_rev_nth d_def)
  also have "\<dots> = 20 - 20 * real i / d"
    using d unfolding k by (simp add: field_simps)
  finally show ?thesis using False by (simp add: d_def)
qed

lemma grid_rev_decreasing:
  assumes "i < j" "j < n"
  shows "rev (linspace 0 20 n) ! j < rev (linspace 0 20 n) ! i"
proof -
  have n: "1 < n" "0 < n" "i < n" "n \<noteq> 1" using assms by simp_all
  define d where "d = real (n - 1)"
  have d: "0 < d" using n by (simp add: d_def)
  have "real i < real j" using assms by simp
  then have "20 * real i / d < 20 * real j / d"
    using d by (simp add: divide_strict_right_mono)
  moreover have "rev (linspace 0 20 n) ! j = 20 - 20 * real j / d"
    using grid_rev_value [OF n(2) assms(2)] n(4) by (simp add: d_def)
  moreover have "rev (linspace 0 20 n) ! i = 20 - 20 * real i / d"
    using grid_rev_value [OF n(2) n(3)] n(4) by (simp add: d_def)
  ultimately show ?thesis by simp
qed

lemma grid_bounds:
  assumes "0 < n" "i < n"
  shows "0 \<le> linspace 0 20 n ! i \<and> linspace 0 20 n ! i \<le> 20"
proof (cases "n = 1")
  case True
  then show ?thesis using assms by (simp add: linspace_single)
next
  case False
  then have n: "1 < n" using assms by simp
  define d where "d = real (n - 1)"
  have d: "0 < d" using n by (simp add: d_def)
  have "real i \<le> d" using assms by (simp add: d_def)
  then have "0 \<le> 20 * real i / d \<and> 20 * real i / d \<le> 20"
    using d by (simp add: field_simps)
  moreover have "linspace 0 20 n ! i = 20 * real i / d"
    using grid_nth_gen [OF n assms(2)] by (simp add: d_def)
  ultimately show ?thesis by simp
qed

subsection \<open>The sweep at resolution 2 with the frozen integrator\<close>

lemma survival_frozen:
  "survival frozen_integrator a b =
     (if fl_gt a (Fin (1 / 10)) \<and> fl_gt b (Fin (1 / 10)) \<and> fl_le (a + b) (Fin 20) then 0
      else if \<not> fl_le (a + b) (Fin 20) then 1 else - 1)"
  by (simp add: survival_cases trajectory_frozen list_all_iff list_ex_iff)

lemma linspace_0_20_2: "linspace 0 20 2 = [0, 20]"
  by (simp add: linspace_def numeral_2_eq_2)

lemma sweep_conds_2:
  "sweep_conds 2 = [(Fin 0, Fin 20, 0, 0), (Fin 0, Fin 0, 0, 1), (Fin 20, Fin 20, 1, 0), (Fin 20, Fin 0, 1, 1)]"
  unfolding sweep_conds_def linspace_0_20_2
  by (simp add: enumerate_eq_zip upt_rec)

lemma sweep_outputs_frozen_2:
  "sweep_outputs frozen_integrator 2 = [(- 1, 0, 0), (- 1, 0, 1), (1, 1, 0), (- 1, 1, 1)]"
  by (simp add: sweep_outputs_def pool_map_def sweep_conds_2 helper_def survival_frozen fl_gt_def)

lemma scan_frozen_2:
  "scan_outputs (np_zeros 2 2) [(- 1, 0, 0), (- 1, 0, 1), (1, 1, 0), (- 1, 1, 1)]
     = Inr [[- 1, 1], [- 1, - 1]]"
  by (simp add: np_zeros_def setitem_def numeral_2_eq_2)

lemma adapt_matrix_frozen_2:
  "adapt_matrix True frozen_integrator 2 = Inr (Some [[- 1, 1], [- 1, - 1]])"
proof -
  have "adapt_matrix True frozen_integrator 2 =
      (case scan_outputs (np_zeros (nat 2) (nat 2)) (sweep_outputs frozen_integrator (nat 2)) of
         Inl e \<Rightarrow> Inl e | Inr m \<Rightarrow> Inr (Some m))"
    by (rule adapt_matrix_main) simp
  moreover have "nat 2 = 2" by simp
  ultimately show ?thesis
    by (simp only: sweep_outputs_frozen_2 scan_frozen_2 sum.case)
qed

subsection \<open>Coverage, orientation and order independence\<close>

text \<open>
  C4. As stated (``for every positive resolution \<open>R\<close>, \<^verbatim>\<open>adapt_matrix(R)\<close> returns an
  \<open>R \<times> R\<close> matrix''), the claim fails when the module is not run as the main program:
  the dispatch, the loop over the outputs and the \<^verbatim>\<open>return\<close> are inside the test
  \<^verbatim>\<open>__name__ == '__main__'\<close>, and the function returns \<^verbatim>\<open>None\<close>.
\<close>

theorem adapt_matrix_coverage_counterexample:
  "adapt_matrix False frozen_integrator 2 = Inr None
   \<and> \<not> (\<exists>m. adapt_matrix False frozen_integrator 2 = Inr (Some m))"
  by (simp add: adapt_matrix_def Let_def)

text \<open>
  C4, amended. When the module is run as the main program, for every positive
  resolution \<open>R\<close> \<^verbatim>\<open>adapt_matrix(R)\<close> returns a matrix with \<open>R\<close> rows of \<open>R\<close>
  entries; the loop over the collected outputs assigns every cell of
  \<open>{0..<R} \<times> {0..<R}\<close> exactly once (the list of assigned cells has no repetition
  and covers the grid), and every cell holds the status of the output that carries its
  position. (A written cell may hold 0.0, the label of survival, which is also the
  value the matrix starts with: ``left at its initialization'' is read as ``not
  written''.) When the module is not run as the main program, the function returns
  \<^verbatim>\<open>None\<close>.
\<close>

theorem adapt_matrix_coverage:
  assumes "0 < R"
  shows "(\<exists>m. adapt_matrix True odeint R = Inr (Some m)
        \<and> length m = nat R \<and> (\<forall>r<nat R. length (m ! r) = nat R)
        \<and> (\<forall>i\<in>set (sweep_outputs odeint (nat R)). m ! snd (snd i) ! fst (snd i) = fst i))
     \<and> distinct (written_cells (sweep_outputs odeint (nat R)))
     \<and> set (written_cells (sweep_outputs odeint (nat R))) = {0..<nat R} \<times> {0..<nat R}
     \<and> adapt_matrix False odeint R = Inr None"
proof -
  obtain m where m: "scan_outputs (np_zeros (nat R) (nat R)) (sweep_outputs odeint (nat R)) = Inr m"
    "length m = nat R" "\<forall>r<nat R. length (m ! r) = nat R"
    "\<forall>r<nat R. \<forall>c<nat R. m ! r ! c =
        survival odeint (Fin (linspace 0 20 (nat R) ! c)) (Fin (linspace 0 20 (nat R) ! (nat R - 1 - r)))"
    using sweep_result [of "nat R" odeint] by blast
  have run: "adapt_matrix True odeint R = Inr (Some m)"
    using assms m(1) by (simp add: adapt_matrix_main)
  have cells: "m ! snd (snd i) ! fst (snd i) = fst i" if "i \<in> set (sweep_outputs odeint (nat R))" for i
  proof -
    from that obtain pa pb where i: "pa < nat R" "pb < nat R"
      "i = (survival odeint (map Fin (linspace 0 20 (nat R)) ! pa)
              (rev (map Fin (linspace 0 20 (nat R))) ! pb), pa, pb)"
      unfolding sweep_outputs_product by auto
    then show ?thesis using m(4)
      by (simp add: rev_nth length_linspace)
  qed
  show ?thesis
    using run m(2,3) cells assms
    by (auto simp: distinct_written_cells_sweep set_written_cells_sweep adapt_matrix_not_main)
qed

theorem adapt_matrix_coverage_witness:
  "adapt_matrix True frozen_integrator 2 = Inr (Some [[- 1, 1], [- 1, - 1]])
   \<and> written_cells (sweep_outputs frozen_integrator 2) = [(0, 0), (1, 0), (0, 1), (1, 1)]
   \<and> distinct (written_cells (sweep_outputs frozen_integrator 2))
   \<and> set (written_cells (sweep_outputs frozen_integrator 2)) = {0..<2} \<times> {0..<2}
   \<and> adapt_matrix False frozen_integrator 2 = Inr None"
proof -
  have n: "nat 2 = 2" by simp
  have "distinct (written_cells (sweep_outputs frozen_integrator 2))
      \<and> set (written_cells (sweep_outputs frozen_integrator 2)) = {0..<2} \<times> {0..<2}
      \<and> adapt_matrix False frozen_integrator 2 = Inr None"
    using adapt_matrix_coverage [of 2 frozen_integrator] unfolding n by simp
  moreover have "written_cells (sweep_outputs frozen_integrator 2) = [(0, 0), (1, 0), (0, 1), (1, 1)]"
    by (simp add: sweep_outputs_frozen_2 written_cells_def)
  ultimately show ?thesis using adapt_matrix_frozen_2 by simp
qed

text \<open>
  C8. At resolution \<open>R\<close> the cell at \<open>(row, col)\<close> of the returned matrix holds the
  label of \<open>A0 =\<close> the \<open>col\<close>-th value of the ascending grid and \<open>B0 =\<close> the
  \<open>row\<close>-th value of the flipped grid. The grid values are the \<open>R\<close> evenly spaced
  values \<open>20 * i / (R - 1)\<close> of \<open>[0, 20]\<close> (the single value 0 when \<open>R = 1\<close>), so
  that row \<open>row\<close> stands for \<open>B0 = 20 - 20 * row / (R - 1)\<close>, and a larger row index
  is a smaller \<open>B0\<close>.
\<close>

theorem adapt_matrix_orientation:
  assumes "0 < R" "row < nat R" "col < nat R"
  shows "\<exists>m. adapt_matrix True odeint R = Inr (Some m)
     \<and> m ! row ! col = survival odeint (Fin (linspace 0 20 (nat R) ! col))
                          (Fin (rev (linspace 0 20 (nat R)) ! row))
     \<and> linspace 0 20 (nat R) ! col = (if R = 1 then 0 else 20 * real col / real (nat R - 1))
     \<and> rev (linspace 0 20 (nat R)) ! row = (if R = 1 then 0 else 20 - 20 * real row / real (nat R - 1))
     \<and> 0 \<le> linspace 0 20 (nat R) ! col \<and> linspace 0 20 (nat R) ! col \<le> 20
     \<and> (\<forall>row'. row < row' \<and> row' < nat R \<longrightarrow>
           rev (linspace 0 20 (nat R)) ! row' < rev (linspace 0 20 (nat R)) ! row)"
proof -
  have n: "0 < nat R" "(nat R = 1) = (R = 1)" using assms by auto
  obtain m where m: "scan_outputs (np_zeros (nat R) (nat R)) (sweep_outputs odeint (nat R)) = Inr m"
    "\<forall>r<nat R. \<forall>c<nat R. m ! r ! c =
        survival odeint (Fin (linspace 0 20 (nat R) ! c)) (Fin (linspace 0 20 (nat R) ! (nat R - 1 - r)))"
    using sweep_result [of "nat R" odeint] by blast
  have "adapt_matrix True odeint R = Inr (Some m)"
    using assms m(1) by (simp add: adapt_matrix_main)
  moreover have "m ! row ! col = survival odeint (Fin (linspace 0 20 (nat R) ! col))
                          (Fin (rev (linspace 0 20 (nat R)) ! row))"
    using m(2) assms n by (simp add: grid_rev_nth)
  ultimately show ?thesis
    using grid_nth [OF n(1) assms(3)] grid_rev_value [OF n(1) assms(2)]
      grid_bounds [OF n(1) assms(3)] grid_rev_decreasing [of row _ "nat R"] n(2)
    by auto
qed

theorem adapt_matrix_orientation_witness:
  "adapt_matrix True frozen_integrator 2 = Inr (Some [[- 1, 1], [- 1, - 1]])
   \<and> [[- 1, 1], [- 1, - 1 :: real]] ! 0 ! 1 = survival frozen_integrator (Fin 20) (Fin 20)
   \<and> linspace 0 20 2 ! 1 = 20 \<and> rev (linspace 0 20 2) ! 0 = 20"
proof -
  have n: "nat 2 = 2" by simp
  obtain m where m: "adapt_matrix True frozen_integrator 2 = Inr (Some m)"
    "m ! 0 ! 1 = survival frozen_integrator (Fin (linspace 0 20 2 ! 1)) (Fin (rev (linspace 0 20 2) ! 0))"
    "linspace 0 20 2 ! 1 = 20 * real 1 / real (2 - 1)"
    "rev (linspace 0 20 2) ! 0 = 20 - 20 * real 0 / real (2 - 1)"
    using adapt_matrix_orientation [of 2 0 1 frozen_integrator] unfolding n by auto
  have "m = [[- 1, 1], [- 1, - 1]]" using m(1) adapt_matrix_frozen_2 by simp
  then show ?thesis using m by simp
qed

text \<open>
  C9. With the library integrator taken as a function of its arguments, every job is a
  function of its inputs and the sweep is a function of the resolution (the parameters
  and the time grid are fixed in the code). Its result does not depend on the order in
  which the job results are collected either: any two orderings of the outputs of the
  jobs are scanned into the same matrix, the one \<^verbatim>\<open>adapt_matrix\<close> returns, because
  the positions the outputs carry are pairwise distinct.
\<close>

theorem adapt_matrix_deterministic:
  assumes "0 \<le> R"
    and "mset outs1 = mset (sweep_outputs odeint (nat R))"
    and "mset outs2 = mset (sweep_outputs odeint (nat R))"
  shows "\<exists>m. adapt_matrix True odeint R = Inr (Some m)
     \<and> scan_outputs (np_zeros (nat R) (nat R)) outs1 = Inr m
     \<and> scan_outputs (np_zeros (nat R) (nat R)) outs2 = Inr m"
proof -
  obtain m where m: "scan_outputs (np_zeros (nat R) (nat R)) (sweep_outputs odeint (nat R)) = Inr m"
    using sweep_result [of "nat R" odeint] by blast
  have "scan_outputs (np_zeros (nat R) (nat R)) outs1 = Inr m"
    using scan_outputs_perm [OF np_zeros_dims sweep_outputs_in_range distinct_written_cells_sweep assms(2)] m
    by simp
  moreover have "scan_outputs (np_zeros (nat R) (nat R)) outs2 = Inr m"
    using scan_outputs_perm [OF np_zeros_dims sweep_outputs_in_range distinct_written_cells_sweep assms(3)] m
    by simp
  moreover have "adapt_matrix True odeint R = Inr (Some m)"
    using assms(1) m by (simp add: adapt_matrix_main)
  ultimately show ?thesis by blast
qed

theorem adapt_matrix_deterministic_witness:
  "adapt_matrix True frozen_integrator 2 = Inr (Some [[- 1, 1], [- 1, - 1]])
   \<and> scan_outputs (np_zeros 2 2) (rev (sweep_outputs frozen_integrator 2)) = Inr [[- 1, 1], [- 1, - 1]]
   \<and> scan_outputs (np_zeros 2 2) (sweep_outputs frozen_integrator 2) = Inr [[- 1, 1], [- 1, - 1]]"
proof -
  have n: "nat 2 = 2" by simp
  have p: "mset (rev (sweep_outputs frozen_integrator 2)) = mset (sweep_outputs frozen_integrator (nat 2))"
    by simp
  have q: "mset (sweep_outputs frozen_integrator 2) = mset (sweep_outputs frozen_integrator (nat 2))"
    by simp
  have z: "(0::int) \<le> 2" by simp
  obtain m where m: "adapt_matrix True frozen_integrator 2 = Inr (Some m)"
    "scan_outputs (np_zeros 2 2) (rev (sweep_outputs frozen_integrator 2)) = Inr m"
    "scan_outputs (np_zeros 2 2) (sweep_outputs frozen_integrator 2) = Inr m"
    using adapt_matrix_deterministic [OF z p q] unfolding n by blast
  have "m = [[- 1, 1], [- 1, - 1]]" using m(1) adapt_matrix_frozen_2 by simp
  then show ?thesis using m by simp
qed

subsection \<open>The vector field and its reference equations\<close>

lemma N_real: "N (Fin L) (Fin S) (Fin C) = Fin (max 0 (S * L + C))"
  by (simp add: N_def max_def)

lemma F_real: "F (Fin L) (Fin S) (Fin C) = Fin (max 0 (- S * L + C))"
  by (simp add: F_def max_def)

lemma Fin_power: "Fin x ^ n = Fin (x ^ n)"
  by (induction n) (simp_all add: one_fl_def)

lemma cube_plus_64: "(64::real) + B ^ 3 = (B + 4) * ((B - 2)\<^sup>2 + 12)"
  by (simp add: power2_eq_square power3_eq_cube algebra_simps)

lemma cube_plus_64_nonzero: "B \<noteq> - 4 \<Longrightarrow> (64::real) + B ^ 3 \<noteq> 0"
proof -
  assume "B \<noteq> - 4"
  then have "B + 4 \<noteq> 0" by simp
  moreover have "0 < (B - 2)\<^sup>2 + 12" by (simp add: add_nonneg_pos)
  ultimately show ?thesis unfolding cube_plus_64 by simp
qed

lemma hill_denominator_pos: "0 < (u::real) ^ 20 + (1 / 2) ^ 20"
proof -
  have "0 \<le> u ^ 20" by (rule zero_le_even_power) simp
  moreover have "0 < ((1::real) / 2) ^ 20" by simp
  ultimately show ?thesis by (rule add_nonneg_pos)
qed

lemma Fin_divide: "y \<noteq> 0 \<Longrightarrow> Fin x / Fin y = Fin (x / y)"
  by simp

lemma Fin_minus: "Fin x - Fin y = Fin (x - y)"
  by (simp add: minus_fl_def)

text \<open>
  At \<open>A = B = 0\<close>, a point of every sweep, the quotient \<open>(A - B)/(A + B)\<close> is
  \<open>0/0\<close> and the derivative of \<open>X\<close> is NaN.
\<close>

lemma ode_func_at_origin:
  "ode_func (Fin L, Fin 0, Fin 0, Fin X) t = (Fin ((X - 1 / 2) * 2), Fin 0, Fin 0, NaN)"
  by (simp add: ode_func_def Let_def Fin_power Fin_minus N_real F_real minus_fl_def
      power_eq_if [of NaN])

text \<open>
  C6. As stated (``for every state \<open>(L, A, B, X)\<close> the field returns the tuple of the
  reference equations''), the claim fails at the states where a quotient of the equations
  has a zero divisor: no division is guarded anywhere in the code, and the result holds
  an infinity or a NaN there instead of a derivative. At \<open>A = B = 0\<close> with the initial
  \<open>L = -10\<close> and \<open>X = 0.5\<close> of the sweep, the normalised difference is \<open>0/0\<close> and
  the last component is NaN, which is not the value of any real-valued equation.
\<close>

theorem ode_func_reference_counterexample:
  "ode_func (Fin (- 10), Fin 0, Fin 0, Fin (1 / 2)) (Fin 0) = (Fin 0, Fin 0, Fin 0, NaN)
   \<and> ode_func (Fin (- 10), Fin 0, Fin 0, Fin (1 / 2)) (Fin 0)
       \<noteq> (case reference_field code_params (- 10, 0, 0, 1 / 2) of
            (dL, dA, dB, dX) \<Rightarrow> (Fin dL, Fin dA, Fin dB, Fin dX))"
  by (simp add: ode_func_at_origin case_prod_beta)

text \<open>
  C6, amended. At every state \<open>(L, A, B, X)\<close> at which no quotient of the reference
  equations has a zero divisor (\<open>A + B \<noteq> 0\<close>, and \<open>K1^n + B^n\<close> and \<open>K1^n + A^n\<close>
  are not zero, that is \<open>A\<close> and \<open>B\<close> are not \<open>-4\<close>), \<^verbatim>\<open>ode_func\<close> returns the
  tuple of the reference equations with the constants of the code:
  \<open>dL/dt = (X - 0.5) * V\<close>,
  \<open>dA/dt = gamma * B^n / (K1^n + B^n) * supplyRising(L) - kd * A\<close>, \<open>dB/dt\<close>
  symmetric with \<open>A\<close> driving and \<open>supplyFalling(L)\<close>, and
  \<open>dX/dt = alpha * K2^h / (target^h + K2^h) - X\<close> with
  \<open>target = ((A - B)/(A + B) + 1)/2\<close>. The field is a function of the state alone:
  it reads nothing else and the time argument is not used.
\<close>

theorem ode_func_reference:
  assumes "A + B \<noteq> 0" "B \<noteq> - 4" "A \<noteq> - 4"
  shows "ode_func (Fin L, Fin A, Fin B, Fin X) t =
     (case reference_field code_params (L, A, B, X) of
        (dL, dA, dB, dX) \<Rightarrow> (Fin dL, Fin dA, Fin dB, Fin dX))"
proof -
  have dB: "Fin (B ^ 3) / Fin (4 ^ 3 + B ^ 3) = Fin (B ^ 3 / (4 ^ 3 + B ^ 3))"
    using cube_plus_64_nonzero [OF assms(2)] by (intro Fin_divide) simp
  have dA: "Fin (A ^ 3) / Fin (4 ^ 3 + A ^ 3) = Fin (A ^ 3 / (4 ^ 3 + A ^ 3))"
    using cube_plus_64_nonzero [OF assms(3)] by (intro Fin_divide) simp
  have q: "Fin (A - B) / Fin (A + B) = Fin ((A - B) / (A + B))"
    using assms(1) by (intro Fin_divide)
  have tgt: "Fin ((A - B) / (A + B) + 1) / Fin 2 = Fin (((A - B) / (A + B) + 1) / 2)"
    by (intro Fin_divide) simp
  have dX: "Fin ((1 / 2) ^ 20) / Fin ((((A - B) / (A + B) + 1) / 2) ^ 20 + (1 / 2) ^ 20)
      = Fin ((1 / 2) ^ 20 / ((((A - B) / (A + B) + 1) / 2) ^ 20 + (1 / 2) ^ 20))"
    using hill_denominator_pos [of "((A - B) / (A + B) + 1) / 2"] by (intro Fin_divide) simp
  show ?thesis
    unfolding ode_func_def reference_field_def code_params_def Let_def
    by (simp only: prod.case Fin_power Fin_minus q tgt dA dB dX N_real F_real
        supplyRising_def supplyFalling_def times_fl.simps plus_fl.simps params.simps
        mult_1 times_divide_eq_right)
qed

theorem ode_func_reference_witness:
  "(4::real) + 4 \<noteq> 0 \<and> (4::real) \<noteq> - 4
   \<and> ode_func (Fin (- 10), Fin 4, Fin 4, Fin (1 / 2)) (Fin 0)
       = (Fin 0, Fin (- 1 / 5), Fin (39 / 50), Fin 0)"
  using ode_func_reference [of 4 4 "- 10" "1 / 2" "Fin 0"]
  by (simp add: reference_field_def code_params_def supplyRising_def supplyFalling_def)

subsection \<open>The fixed-environment scores\<close>

lemma map2_plus_pairs: "map2 (+) (map fst xs) (map snd xs) = map (\<lambda>s. fst s + snd s) xs"
  by (induction xs) auto

lemma AB_survival_cases:
  "AB_survival odeint N_arg F_arg a b =
     (if list_all (\<lambda>(A, B). fl_gt A (Fin (1 / 10)) \<and> fl_gt B (Fin (1 / 10)) \<and> fl_le (A + B) (Fin 20))
          (trajectory_AB odeint N_arg F_arg a b) then 1 else 0)"
  unfolding AB_survival_def trajectory_AB_def Let_def map2_plus_pairs
  by (auto simp: list_all_iff case_prod_beta)

lemma AB_assess_main:
  "AB_assess True odeint N_arg F_arg = np_mean (AB_scores odeint N_arg F_arg)"
  by (simp add: AB_assess_def AB_scores_def Let_def pool_map_def helper_AB_def map_concat comp_def)

lemma AB_assess_not_main: "AB_assess False odeint N_arg F_arg = Fin 0"
  by (simp add: AB_assess_def Let_def)

lemma length_concat_const:
  "length (concat (map (\<lambda>a. map (f a) ys) xs)) = length xs * length ys"
  by (induction xs) auto

lemma length_AB_scores: "length (AB_scores odeint N_arg F_arg) = 2500"
  unfolding AB_scores_def
  by (simp only: length_concat_const length_map length_linspace)

lemma AB_scores_binary: "s \<in> set (AB_scores odeint N_arg F_arg) \<Longrightarrow> s = 0 \<or> s = 1"
  by (auto simp: AB_scores_def AB_survival_cases)

lemma sum_list_binary_bounds:
  "\<forall>s\<in>set xs. s = 0 \<or> s = (1::real) \<Longrightarrow> 0 \<le> sum_list xs \<and> sum_list xs \<le> real (length xs)"
  by (induction xs) auto

lemma member_le_sum_list_real:
  "\<forall>s\<in>set xs. 0 \<le> (s::real) \<Longrightarrow> x \<in> set xs \<Longrightarrow> x \<le> sum_list xs"
  by (induction xs) (auto simp: sum_list_nonneg add_increasing add_increasing2)

lemma trajectory_AB_frozen:
  "trajectory_AB frozen_integrator N_arg F_arg a b = replicate 4000 (a, b)"
  by (simp add: trajectory_AB_def frozen_integrator_replicate length_linspace)

lemma AB_survival_frozen:
  "AB_survival frozen_integrator N_arg F_arg a b =
     (if fl_gt a (Fin (1 / 10)) \<and> fl_gt b (Fin (1 / 10)) \<and> fl_le (a + b) (Fin 20) then 1 else 0)"
  by (simp add: AB_survival_cases trajectory_AB_frozen list_all_iff)

lemma AB_scores_frozen_positive:
  "0 < sum_list (AB_scores frozen_integrator N_arg F_arg)"
proof -
  have g: "linspace 0 20 50 ! 1 = 20 / 49"
    using linspace_nth [of 50 1 0 20] by simp
  have "linspace 0 20 50 ! 1 \<in> set (linspace 0 20 50)"
    by (rule nth_mem) (simp add: length_linspace)
  then have "20 / 49 \<in> set (linspace 0 20 50)"
    unfolding g .
  then have "Fin (20 / 49) \<in> set (map Fin (linspace 0 20 50))"
    by auto
  then have "AB_survival frozen_integrator N_arg F_arg (Fin (20 / 49)) (Fin (20 / 49))
      \<in> set (AB_scores frozen_integrator N_arg F_arg)"
    unfolding AB_scores_def by auto
  moreover have "AB_survival frozen_integrator N_arg F_arg (Fin (20 / 49)) (Fin (20 / 49)) = 1"
    by (simp add: AB_survival_frozen fl_gt_def)
  moreover have "\<forall>s\<in>set (AB_scores frozen_integrator N_arg F_arg). 0 \<le> s"
    using AB_scores_binary by fastforce
  ultimately have "1 \<le> sum_list (AB_scores frozen_integrator N_arg F_arg)"
    using member_le_sum_list_real by metis
  then show ?thesis by simp
qed

text \<open>
  C7. As stated (``for every pair \<open>(N, F)\<close> the value returned by \<^verbatim>\<open>AB_assess\<close> is
  the mean of the 2500 scores''), the claim fails when the module is not run as the main
  program: the dispatch and the mean are inside the test
  \<^verbatim>\<open>__name__ == '__main__'\<close>, the \<^verbatim>\<open>return\<close> is not, and the function returns
  the initial score 0.0 whatever the scores are. With the frozen integrator some of the
  2500 trials survive, so that their mean is not 0.
\<close>

theorem AB_scores_mean_counterexample:
  "AB_assess False frozen_integrator (Fin 1) (Fin 1) = Fin 0
   \<and> np_mean (AB_scores frozen_integrator (Fin 1) (Fin 1)) \<noteq> Fin 0
   \<and> AB_assess False frozen_integrator (Fin 1) (Fin 1)
        \<noteq> np_mean (AB_scores frozen_integrator (Fin 1) (Fin 1))"
  using AB_scores_frozen_positive [of "Fin 1" "Fin 1"]
  by (auto simp: AB_assess_not_main np_mean_def)

text \<open>
  C7, amended. Every score returned by \<^verbatim>\<open>AB_survival\<close> is 1.0 or 0.0, and it is
  1.0 exactly when \<open>A > 0.1\<close>, \<open>B > 0.1\<close> and \<open>C = A + B \<le> 20\<close> at every sampled
  time point. When the module is run as the main program, \<^verbatim>\<open>AB_assess\<close> returns
  for every pair \<open>(N, F)\<close> the mean of the 50 by 50 = 2500 scores of the sub-grid, a
  value in \<open>[0, 1]\<close>; when it is not, \<^verbatim>\<open>AB_assess\<close> returns 0.0.
\<close>

theorem AB_scores_mean:
  "(AB_survival odeint N_arg F_arg a b = 1 \<or> AB_survival odeint N_arg F_arg a b = 0)
   \<and> (AB_survival odeint N_arg F_arg a b = 1 \<longleftrightarrow>
        (\<forall>(A, B) \<in> set (trajectory_AB odeint N_arg F_arg a b).
           fl_gt A (Fin (1 / 10)) \<and> fl_gt B (Fin (1 / 10)) \<and> fl_le (A + B) (Fin 20)))
   \<and> length (AB_scores odeint N_arg F_arg) = 2500
   \<and> AB_assess True odeint N_arg F_arg = Fin (sum_list (AB_scores odeint N_arg F_arg) / 2500)
   \<and> 0 \<le> sum_list (AB_scores odeint N_arg F_arg) / 2500
   \<and> sum_list (AB_scores odeint N_arg F_arg) / 2500 \<le> 1
   \<and> AB_assess False odeint N_arg F_arg = Fin 0"
proof -
  have ne: "AB_scores odeint N_arg F_arg \<noteq> []"
    using length_AB_scores [of odeint N_arg F_arg] by auto
  have b: "0 \<le> sum_list (AB_scores odeint N_arg F_arg)
      \<and> sum_list (AB_scores odeint N_arg F_arg) \<le> 2500"
    using sum_list_binary_bounds [of "AB_scores odeint N_arg F_arg"] AB_scores_binary [of _ odeint N_arg F_arg]
    by (auto simp: length_AB_scores)
  have "AB_assess True odeint N_arg F_arg = Fin (sum_list (AB_scores odeint N_arg F_arg) / 2500)"
    using ne by (simp add: AB_assess_main np_mean_def length_AB_scores)
  moreover have "AB_survival odeint N_arg F_arg a b = 1 \<longleftrightarrow>
        (\<forall>(A, B) \<in> set (trajectory_AB odeint N_arg F_arg a b).
           fl_gt A (Fin (1 / 10)) \<and> fl_gt B (Fin (1 / 10)) \<and> fl_le (A + B) (Fin 20))"
    by (auto simp: AB_survival_cases list_all_iff case_prod_beta)
  moreover have "AB_survival odeint N_arg F_arg a b = 1 \<or> AB_survival odeint N_arg F_arg a b = 0"
    by (simp add: AB_survival_cases)
  ultimately show ?thesis
    using b by (simp add: length_AB_scores AB_assess_not_main)
qed

theorem AB_scores_mean_witness:
  "AB_survival frozen_integrator (Fin 1) (Fin 1) (Fin 5) (Fin 5) = 1
   \<and> AB_survival frozen_integrator (Fin 1) (Fin 1) (Fin 0) (Fin 5) = 0
   \<and> list_all (\<lambda>(A, B). fl_gt A (Fin (1 / 10)) \<and> fl_gt B (Fin (1 / 10)) \<and> fl_le (A + B) (Fin 20))
        (trajectory_AB frozen_integrator (Fin 1) (Fin 1) (Fin 5) (Fin 5))
   \<and> length (AB_scores frozen_integrator (Fin 1) (Fin 1)) = 2500
   \<and> AB_assess True frozen_integrator (Fin 1) (Fin 1)
        = Fin (sum_list (AB_scores frozen_integrator (Fin 1) (Fin 1)) / 2500)
   \<and> AB_assess False frozen_integrator (Fin 1) (Fin 1) = Fin 0"
  using AB_scores_mean [of frozen_integrator "Fin 1" "Fin 1" "Fin 5" "Fin 5"]
    AB_scores_mean [of frozen_integrator "Fin 1" "Fin 1" "Fin 0" "Fin 5"]
  by (auto simp: trajectory_AB_frozen list_all_iff fl_gt_def)

subsection \<open>The rectified supply functions\<close>

text \<open>
  C5. For all real \<open>L\<close>, \<open>S\<close>, \<open>C\<close>: \<^verbatim>\<open>N\<close> returns \<open>S*L + C\<close> when that is not
  negative and 0 when it is, \<^verbatim>\<open>F\<close> does the same with \<open>-S*L + C\<close>; both are the
  maximum of 0 and the linear expression, and both results are at least 0.
\<close>

theorem supply_rectified:
  "N (Fin L) (Fin S) (Fin C) = Fin (if S * L + C < 0 then 0 else S * L + C)
   \<and> F (Fin L) (Fin S) (Fin C) = Fin (if - S * L + C < 0 then 0 else - S * L + C)
   \<and> N (Fin L) (Fin S) (Fin C) = Fin (supplyRising L S C)
   \<and> F (Fin L) (Fin S) (Fin C) = Fin (supplyFalling L S C)
   \<and> fl_le (Fin 0) (N (Fin L) (Fin S) (Fin C))
   \<and> fl_le (Fin 0) (F (Fin L) (Fin S) (Fin C))"
  by (simp add: N_def F_def supplyRising_def supplyFalling_def max_def)

theorem supply_rectified_witness:
  "N (Fin (- 10)) (Fin 4) (Fin 9) = Fin 0 \<and> F (Fin (- 10)) (Fin 4) (Fin 9) = Fin 49
   \<and> N (Fin 10) (Fin 4) (Fin 9) = Fin 49 \<and> F (Fin 10) (Fin 4) (Fin 9) = Fin 0"
  using supply_rectified [of "- 10" 4 9] supply_rectified [of 10 4 9]
  by simp

end
